theory Spec2Isabelle
  imports Main "HOL-Library.Stream"
begin

section \<open>Values of the host language\<close>

text \<open>
  Errors are values. \<open>Error\<close> is a thrown \<^verbatim>\<open>new Error(message)\<close>, \<open>TypeError\<close> is what
  reading a property of \<^verbatim>\<open>undefined\<close> or \<^verbatim>\<open>null\<close> throws, and \<open>Rejected\<close> is a rejection of
  the promise returned by \<^verbatim>\<open>client.send\<close> (network, throttling, permission).
\<close>

datatype error = Error string | TypeError | Rejected string

text \<open>
  The values stored in a mapped row: \<^verbatim>\<open>undefined\<close>, a string, or a \<^verbatim>\<open>Date\<close> object, which
  holds a time value in milliseconds since the epoch, or NaN (\<open>None\<close>, an invalid date).
\<close>

datatype jsval = Undefined | Str string | DateObj "int option"

text \<open>
  A plain object used as a dictionary from column names to values: its own properties,
  read with \<open>obj_get\<close> (a missing property reads as \<^verbatim>\<open>undefined\<close>). The keys are taken to
  be ordinary property names, which an object stores as its own; the names that
  \<^verbatim>\<open>Object.prototype\<close> already defines (such as \<^verbatim>\<open>__proto__\<close>) are outside the model.
\<close>

type_synonym jsobj = "string \<rightharpoonup> jsval"

definition obj_get :: "jsobj \<Rightarrow> string \<Rightarrow> jsval" where
  "obj_get obj key = (case obj key of None \<Rightarrow> Undefined | Some v \<Rightarrow> v)"

text \<open>Reading an optional string property: the string, or \<^verbatim>\<open>undefined\<close> when it is absent.\<close>

definition js_string :: "string option \<Rightarrow> jsval" where
  "js_string v = (case v of None \<Rightarrow> Undefined | Some s \<Rightarrow> Str s)"

text \<open>Truthiness of a value that is a string, \<^verbatim>\<open>undefined\<close> or \<^verbatim>\<open>null\<close>: the empty string is falsy.\<close>

definition truthy :: "string option \<Rightarrow> bool" where
  "truthy v = (case v of None \<Rightarrow> False | Some s \<Rightarrow> s \<noteq> [])"

section \<open>Data model\<close>

record Datum =
  VarCharValue :: "string option"

record Row =
  Data :: "Datum list"

record ColumnInfo =
  Name :: string
  Type :: string

record ResultSetMetadata =
  ColumnInfo :: "ColumnInfo list"

record ResultSet =
  Rows :: "Row list"
  ResultSetMetadata :: ResultSetMetadata

record GetQueryResultsOutput =
  ResultSet :: ResultSet
  NextToken :: "string option"

record ConnectorOptions =
  database :: string
  catalog :: string
  outputBucket :: string
  testTableName :: string

text \<open>
  The constants \<^verbatim>\<open>EvidenceType\<close> and \<^verbatim>\<open>TypeFidelity\<close> are imported from the package
  \<^verbatim>\<open>@evidence-dev/db-commons\<close>; they are objects of string constants, with these values.
\<close>

definition EvidenceType_BOOLEAN :: string where "EvidenceType_BOOLEAN = ''boolean''"
definition EvidenceType_NUMBER :: string where "EvidenceType_NUMBER = ''number''"
definition EvidenceType_STRING :: string where "EvidenceType_STRING = ''string''"
definition EvidenceType_DATE :: string where "EvidenceType_DATE = ''date''"
definition TypeFidelity_INFERRED :: string where "TypeFidelity_INFERRED = ''inferred''"
definition TypeFidelity_PRECISE :: string where "TypeFidelity_PRECISE = ''precise''"

record ColumnType =
  name :: string
  evidenceType :: string
  typeFidelity :: string

record QueryResults =
  rows :: "Row list"
  resultSetMetadata :: "ResultSetMetadata option"

record MappedOutput =
  rows :: "jsobj list"
  columnTypes :: "ColumnType list"
  expectedRowCount :: nat

section \<open>Type mapper\<close>

definition mapAthenaTypeToEvidenceType :: "ColumnInfo \<Rightarrow> ColumnType" where
  "mapAthenaTypeToEvidenceType column =
     (let type =
        (if Type column = ''boolean'' then EvidenceType_BOOLEAN
         else if Type column = ''tinyint'' \<or> Type column = ''smallint'' \<or> Type column = ''int''
               \<or> Type column = ''integer'' \<or> Type column = ''bigint'' \<or> Type column = ''double''
               \<or> Type column = ''float'' \<or> Type column = ''real'' then EvidenceType_NUMBER
         else if Type column = ''date'' \<or> Type column = ''timestamp'' then EvidenceType_DATE
         else if Type column = ''string'' \<or> Type column = ''char'' \<or> Type column = ''varchar''
           then EvidenceType_STRING
         else if Type column = ''array'' then EvidenceType_STRING
         else if Type column = ''map'' then EvidenceType_STRING
         else if Type column = ''struct'' then EvidenceType_STRING
         else if Type column = ''decimal'' then EvidenceType_STRING
         else if Type column = ''binary'' then EvidenceType_STRING
         else EvidenceType_STRING)
      in \<lparr>name = Name column, evidenceType = type, typeFidelity = TypeFidelity_PRECISE\<rparr>)"

section \<open>Result formatter\<close>

text \<open>
  The callback of \<^verbatim>\<open>row.Data.forEach\<close>, run from position \<open>index\<close> on. Reading
  \<^verbatim>\<open>columns[index]\<close> beyond the end of the array gives \<^verbatim>\<open>undefined\<close>, and reading its
  \<^verbatim>\<open>Name\<close> throws.
\<close>

fun mapRow :: "ColumnInfo list \<Rightarrow> nat \<Rightarrow> Datum list \<Rightarrow> jsobj \<Rightarrow> error + jsobj" where
  "mapRow columns index [] mappedRow = Inr mappedRow"
| "mapRow columns index (data # rest) mappedRow =
     (if index < length columns
      then mapRow columns (Suc index) rest
             (mappedRow(Name (columns ! index) \<mapsto> js_string (VarCharValue data)))
      else Inl TypeError)"

text \<open>\<^verbatim>\<open>rows.map\<close>: the first row whose callback throws ends the whole call.\<close>

fun mapRows :: "ColumnInfo list \<Rightarrow> Row list \<Rightarrow> error + jsobj list" where
  "mapRows columns [] = Inr []"
| "mapRows columns (row # rest) =
     (case mapRow columns 0 (Data row) Map.empty of
        Inl e \<Rightarrow> Inl e
      | Inr mappedRow \<Rightarrow>
          (case mapRows columns rest of
             Inl e \<Rightarrow> Inl e
           | Inr mappedRows \<Rightarrow> Inr (mappedRow # mappedRows)))"

definition mapQueryResults :: "QueryResults \<Rightarrow> error + MappedOutput" where
  "mapQueryResults queryResults =
     (case resultSetMetadata queryResults of
        None \<Rightarrow> Inl TypeError
      | Some metadata \<Rightarrow>
          (let columns = ColumnInfo metadata;
               rows = drop 1 (QueryResults.rows queryResults)
           in case mapRows columns rows of
                Inl e \<Rightarrow> Inl e
              | Inr mappedRows \<Rightarrow>
                  Inr \<lparr>rows = mappedRows,
                       columnTypes = map mapAthenaTypeToEvidenceType columns,
                       expectedRowCount = length mappedRows\<rparr>))"

section \<open>Date values\<close>

text \<open>
  \<^verbatim>\<open>new Date(value)\<close> of a string parses it. The language standard fixes the result for
  its own date-time format, of which the date-only form \<^verbatim>\<open>YYYY-MM-DD\<close> is modelled here: it
  is midnight UTC of that day. For any other string the standard lets the engine fall back
  to heuristics of its own, which are a parameter of the model (named \<open>heuristics\<close>).
\<close>

definition digit :: "char \<Rightarrow> nat option" where
  "digit c = (let n = (of_char c :: nat) in if 48 \<le> n \<and> n \<le> 57 then Some (n - 48) else None)"

fun digits :: "string \<Rightarrow> nat \<Rightarrow> nat option" where
  "digits [] acc = Some acc"
| "digits (c # cs) acc = (case digit c of None \<Rightarrow> None | Some d \<Rightarrow> digits cs (10 * acc + d))"

definition InLeapYear :: "nat \<Rightarrow> bool" where
  "InLeapYear y = (y mod 4 = 0 \<and> (y mod 100 \<noteq> 0 \<or> y mod 400 = 0))"

definition DaysInMonth :: "nat \<Rightarrow> nat \<Rightarrow> nat" where
  "DaysInMonth y m =
     (if m = 2 then (if InLeapYear y then 29 else 28)
      else if m = 4 \<or> m = 6 \<or> m = 9 \<or> m = 11 then 30 else 31)"

definition DayFromYear :: "int \<Rightarrow> int" where
  "DayFromYear y =
     365 * (y - 1970) + (y - 1969) div 4 - (y - 1901) div 100 + (y - 1601) div 400"

definition msPerDay :: int where
  "msPerDay = 86400000"

text \<open>The time value of midnight UTC on day \<open>d\<close> of month \<open>m\<close> (1 to 12) of year \<open>y\<close>.\<close>

definition UTC_date :: "nat \<Rightarrow> nat \<Rightarrow> nat \<Rightarrow> int" where
  "UTC_date y m d =
     (DayFromYear (int y) + int (sum_list (map (DaysInMonth y) [1..<m])) + int d - 1) * msPerDay"

definition parse_date_only :: "string \<Rightarrow> int option" where
  "parse_date_only s =
     (if length s = 10 \<and> s ! 4 = CHR ''-'' \<and> s ! 7 = CHR ''-''
      then (case (digits (take 4 s) 0, digits (take 2 (drop 5 s)) 0, digits (drop 8 s) 0) of
              (Some y, Some m, Some d) \<Rightarrow>
                (if 1 \<le> m \<and> m \<le> 12 \<and> 1 \<le> d \<and> d \<le> DaysInMonth y m
                 then Some (UTC_date y m d) else None)
            | _ \<Rightarrow> None)
      else None)"

definition Date_parse :: "(string \<Rightarrow> int option) \<Rightarrow> string \<Rightarrow> int option" where
  "Date_parse heuristics s =
     (case parse_date_only s of Some t \<Rightarrow> Some t | None \<Rightarrow> heuristics s)"

text \<open>
  \<^verbatim>\<open>new Date(value)\<close>: a string is parsed, a \<^verbatim>\<open>Date\<close> is copied, \<^verbatim>\<open>undefined\<close> converts to
  NaN (an invalid date). It never throws on these values.
\<close>

definition new_Date :: "(string \<Rightarrow> int option) \<Rightarrow> jsval \<Rightarrow> jsval" where
  "new_Date heuristics v =
     (case v of
        Undefined \<Rightarrow> DateObj None
      | Str s \<Rightarrow> DateObj (Date_parse heuristics s)
      | DateObj t \<Rightarrow> DateObj t)"

section \<open>The remote service, the timer and the console\<close>

datatype CredentialProvider = fromIni string

record AthenaClient =
  region :: string
  credentials :: CredentialProvider

text \<open>
  The commands sent to the service: start an execution (query text, database, catalog,
  output location), read the state of an execution, and fetch a page of results
  (execution identifier and the \<^verbatim>\<open>NextToken\<close> parameter, absent on the first request).
\<close>

datatype command =
    StartQueryExecutionCommand string string string string
  | GetQueryExecutionCommand string
  | GetQueryResultsCommand string "string option"

datatype event =
    NewAthenaClient AthenaClient
  | Send AthenaClient command
  | SetTimeout nat
  | ConsoleError error

text \<open>
  The world outside the module. The service is not part of this code: what it will answer
  is given as one stream of replies for each operation, consumed in order, where a reply is
  a rejection or the part of the response the code reads (the \<^verbatim>\<open>QueryExecutionId\<close>, the
  \<^verbatim>\<open>QueryExecution.Status.State\<close>, a page). The log records, in order, what the module did.
\<close>

record world =
  started :: "(error + string) stream"
  states :: "(error + string) stream"
  pages :: "(error + GetQueryResultsOutput) stream"
  log :: "event list"

definition send_StartQueryExecution ::
  "AthenaClient \<Rightarrow> command \<Rightarrow> world \<Rightarrow> (error + string) \<times> world" where
  "send_StartQueryExecution client cmd w =
     (shd (started w), w\<lparr>started := stl (started w), log := log w @ [Send client cmd]\<rparr>)"

definition send_GetQueryExecution ::
  "AthenaClient \<Rightarrow> command \<Rightarrow> world \<Rightarrow> (error + string) \<times> world" where
  "send_GetQueryExecution client cmd w =
     (shd (states w), w\<lparr>states := stl (states w), log := log w @ [Send client cmd]\<rparr>)"

definition send_GetQueryResults ::
  "AthenaClient \<Rightarrow> command \<Rightarrow> world \<Rightarrow> (error + GetQueryResultsOutput) \<times> world" where
  "send_GetQueryResults client cmd w =
     (shd (pages w), w\<lparr>pages := stl (pages w), log := log w @ [Send client cmd]\<rparr>)"

definition setTimeout :: "nat \<Rightarrow> world \<Rightarrow> world" where
  "setTimeout ms w = w\<lparr>log := log w @ [SetTimeout ms]\<rparr>"

definition console_error :: "error \<Rightarrow> world \<Rightarrow> world" where
  "console_error e w = w\<lparr>log := log w @ [ConsoleError e]\<rparr>"

section \<open>Client initializer\<close>

text \<open>
  Loading the module: the environment is a map from variable names to values. The result
  is the module-level \<^verbatim>\<open>client\<close>, or the error thrown at load. Past the guard the profile is
  a non-empty string, so \<open>the profile\<close> is that string.
\<close>

definition load_module :: "(string \<rightharpoonup> string) \<Rightarrow> world \<Rightarrow> (error + AthenaClient) \<times> world" where
  "load_module env w =
     (let profile = env ''AUX_PROFILE''
      in if \<not> truthy profile
         then (Inl (Error ''Environment variable AUX_PROFILE is not set.''), w)
         else (let client = \<lparr>region = ''us-east-1'', credentials = fromIni (the profile)\<rparr>
               in (Inr client, w\<lparr>log := log w @ [NewAthenaClient client]\<rparr>)))"

section \<open>Completion poller\<close>

partial_function (option) waitForQueryCompletion ::
  "AthenaClient \<Rightarrow> string \<Rightarrow> world \<Rightarrow> ((error + unit) \<times> world) option" where
  "waitForQueryCompletion client queryExecutionId w =
     (case send_GetQueryExecution client (GetQueryExecutionCommand queryExecutionId) w of
        (Inl e, w') \<Rightarrow> Some (Inl e, w')
      | (Inr status, w') \<Rightarrow>
          if status = ''SUCCEEDED'' then Some (Inr (), w')
          else if status = ''FAILED'' \<or> status = ''CANCELLED''
          then Some (Inl (Error (''Query execution failed or was cancelled: '' @ queryExecutionId)), w')
          else waitForQueryCompletion client queryExecutionId (setTimeout 5000 w'))"

section \<open>Result paginator\<close>

text \<open>
  The body of the \<^verbatim>\<open>do ... while (nextToken)\<close> loop, with the variables it updates:
  the \<^verbatim>\<open>NextToken\<close> field of \<^verbatim>\<open>params\<close>, \<^verbatim>\<open>allRows\<close>, \<^verbatim>\<open>nextToken\<close> and \<^verbatim>\<open>resultSetMetadata\<close>
  (here \<open>metadata\<close>, \<^verbatim>\<open>null\<close> being \<open>None\<close>).
\<close>

partial_function (option) getQueryResults_loop ::
  "AthenaClient \<Rightarrow> string \<Rightarrow> string option \<Rightarrow> Row list \<Rightarrow> string option
     \<Rightarrow> ResultSetMetadata option \<Rightarrow> world \<Rightarrow> ((error + QueryResults) \<times> world) option" where
  "getQueryResults_loop client queryExecutionId params_NextToken allRows nextToken metadata w =
     (let params_NextToken = (if truthy nextToken then nextToken else params_NextToken)
      in case send_GetQueryResults client
                (GetQueryResultsCommand queryExecutionId params_NextToken) w of
           (Inl e, w') \<Rightarrow> Some (Inl e, w')
         | (Inr response, w') \<Rightarrow>
             (let metadata =
                    (case metadata of
                       None \<Rightarrow> Some (ResultSetMetadata (ResultSet response))
                     | Some m \<Rightarrow> Some m);
                  allRows = allRows @ Rows (ResultSet response);
                  nextToken = NextToken response
              in if truthy nextToken
                 then getQueryResults_loop client queryExecutionId params_NextToken allRows
                        nextToken metadata w'
                 else Some (Inr \<lparr>QueryResults.rows = allRows, resultSetMetadata = metadata\<rparr>, w')))"

definition getQueryResults ::
  "AthenaClient \<Rightarrow> string \<Rightarrow> world \<Rightarrow> ((error + QueryResults) \<times> world) option" where
  "getQueryResults client queryExecutionId w =
     getQueryResults_loop client queryExecutionId None [] None None w"

section \<open>Query runner\<close>

text \<open>
  The inner loop of the post-processing, \<^verbatim>\<open>for (const column of output.columnTypes)\<close>, on
  one row: the row object is updated in place.
\<close>

fun for_columns :: "(string \<Rightarrow> int option) \<Rightarrow> ColumnType list \<Rightarrow> jsobj \<Rightarrow> jsobj" where
  "for_columns heuristics [] row = row"
| "for_columns heuristics (column # rest) row =
     for_columns heuristics rest
       (if evidenceType column = ''date''
        then row(name column \<mapsto> new_Date heuristics (obj_get row (name column)))
        else row)"

text \<open>The outer loop, \<^verbatim>\<open>for (const row of output.rows)\<close>: every row is a distinct object.\<close>

definition for_rows :: "(string \<Rightarrow> int option) \<Rightarrow> MappedOutput \<Rightarrow> MappedOutput" where
  "for_rows heuristics output =
     output\<lparr>rows := map (for_columns heuristics (columnTypes output)) (rows output)\<rparr>"

text \<open>The body of the \<^verbatim>\<open>try\<close> block: its result is the value returned or the error thrown.\<close>

definition getRunner_try ::
  "(string \<Rightarrow> int option) \<Rightarrow> AthenaClient \<Rightarrow> ConnectorOptions \<Rightarrow> string \<Rightarrow> world
     \<Rightarrow> ((error + MappedOutput) \<times> world) option" where
  "getRunner_try heuristics client options queryText w =
     (case send_StartQueryExecution client
             (StartQueryExecutionCommand queryText (database options) (catalog options)
                (''s3://'' @ outputBucket options)) w of
        (Inl e, w1) \<Rightarrow> Some (Inl e, w1)
      | (Inr queryExecutionId, w1) \<Rightarrow>
          (case waitForQueryCompletion client queryExecutionId w1 of
             None \<Rightarrow> None
           | Some (Inl e, w2) \<Rightarrow> Some (Inl e, w2)
           | Some (Inr u, w2) \<Rightarrow>
               (case getQueryResults client queryExecutionId w2 of
                  None \<Rightarrow> None
                | Some (Inl e, w3) \<Rightarrow> Some (Inl e, w3)
                | Some (Inr queryResults, w3) \<Rightarrow>
                    (case mapQueryResults queryResults of
                       Inl e \<Rightarrow> Some (Inl e, w3)
                     | Inr output \<Rightarrow> Some (Inr (for_rows heuristics output), w3)))))"

text \<open>
  The function returned by \<^verbatim>\<open>getRunner(options)\<close>, applied to \<^verbatim>\<open>(queryText, queryPath)\<close>.
  Its result is \<open>None\<close> when it never settles, \<open>Inl\<close> when its promise is rejected, and
  \<open>Inr\<close> of the value it resolves to, where \<^verbatim>\<open>undefined\<close> is \<open>None\<close>.
\<close>

definition getRunner ::
  "(string \<Rightarrow> int option) \<Rightarrow> AthenaClient \<Rightarrow> ConnectorOptions \<Rightarrow> string \<Rightarrow> string \<Rightarrow> world
     \<Rightarrow> ((error + MappedOutput option) \<times> world) option" where
  "getRunner heuristics client options queryText queryPath w =
     (case getRunner_try heuristics client options queryText w of
        None \<Rightarrow> None
      | Some (Inr output, w') \<Rightarrow> Some (Inr (Some output), w')
      | Some (Inl error, w') \<Rightarrow> Some (Inr None, console_error error w'))"

section \<open>Connectivity prober\<close>

definition testConnection :: "ConnectorOptions \<Rightarrow> world \<Rightarrow> (error + bool) \<times> world" where
  "testConnection options w = (Inr True, w)"

section \<open>Notions used in the statements\<close>

text \<open>The mapping table as the specification lists it: native tag, mapped type.\<close>

definition spec_type_table :: "(string \<times> string) list" where
  "spec_type_table =
     [(''boolean'', EvidenceType_BOOLEAN),
      (''tinyint'', EvidenceType_NUMBER), (''smallint'', EvidenceType_NUMBER),
      (''int'', EvidenceType_NUMBER), (''integer'', EvidenceType_NUMBER),
      (''bigint'', EvidenceType_NUMBER), (''double'', EvidenceType_NUMBER),
      (''float'', EvidenceType_NUMBER), (''real'', EvidenceType_NUMBER),
      (''date'', EvidenceType_DATE), (''timestamp'', EvidenceType_DATE),
      (''string'', EvidenceType_STRING), (''char'', EvidenceType_STRING),
      (''varchar'', EvidenceType_STRING),
      (''array'', EvidenceType_STRING), (''map'', EvidenceType_STRING),
      (''struct'', EvidenceType_STRING), (''decimal'', EvidenceType_STRING),
      (''binary'', EvidenceType_STRING)]"

text \<open>A status on which the poller neither returns nor fails.\<close>

definition pending :: "string \<Rightarrow> bool" where
  "pending status \<longleftrightarrow> status \<noteq> ''SUCCEEDED'' \<and> status \<noteq> ''FAILED'' \<and> status \<noteq> ''CANCELLED''"

text \<open>The world after one status check: one reply consumed, one command logged.\<close>

definition checked :: "AthenaClient \<Rightarrow> string \<Rightarrow> world \<Rightarrow> world" where
  "checked client queryExecutionId w =
     w\<lparr>states := stl (states w),
       log := log w @ [Send client (GetQueryExecutionCommand queryExecutionId)]\<rparr>"

text \<open>The page requests of an execution, one for each \<^verbatim>\<open>NextToken\<close> parameter of the list.\<close>

definition requests :: "AthenaClient \<Rightarrow> string \<Rightarrow> string option list \<Rightarrow> event list" where
  "requests client queryExecutionId tokens =
     map (\<lambda>t. Send client (GetQueryResultsCommand queryExecutionId t)) tokens"

text \<open>
  An event that is no construction of a client and, when it is a command sent, was sent
  through the given client; and a world whose log extends another's by such events only.
\<close>

definition uses_client :: "AthenaClient \<Rightarrow> event \<Rightarrow> bool" where
  "uses_client client ev =
     (case ev of
        NewAthenaClient c \<Rightarrow> False
      | Send c cmd \<Rightarrow> c = client
      | SetTimeout ms \<Rightarrow> True
      | ConsoleError e \<Rightarrow> True)"

definition extends_log :: "AthenaClient \<Rightarrow> world \<Rightarrow> world \<Rightarrow> bool" where
  "extends_log client w w' \<longleftrightarrow>
     take (length (log w)) (log w') = log w
     \<and> list_all (uses_client client) (drop (length (log w)) (log w'))"

text \<open>
  A host that imports the module and, when the import succeeds, runs one query with the
  runner: the exported functions exist only once the module has loaded, and they all use
  its one \<^verbatim>\<open>client\<close>.
\<close>

definition import_and_run ::
  "(string \<rightharpoonup> string) \<Rightarrow> (string \<Rightarrow> int option) \<Rightarrow> ConnectorOptions \<Rightarrow> string \<Rightarrow> string \<Rightarrow> world
     \<Rightarrow> ((error + MappedOutput option) \<times> world) option" where
  "import_and_run env heuristics options queryText queryPath w =
     (case load_module env w of
        (Inl e, w') \<Rightarrow> Some (Inl e, w')
      | (Inr client, w') \<Rightarrow> getRunner heuristics client options queryText queryPath w')"

section \<open>Properties of the type mapper\<close>

text \<open>
  Claim C1. For every column, the type mapper returns the column's name, PRECISE fidelity,
  and the type that the specification's table lists for the column's native tag, or STRING
  when the table has no entry for the tag. The function is total: this holds for every tag.
\<close>

theorem mapAthenaTypeToEvidenceType_table:
  "mapAthenaTypeToEvidenceType column =
     \<lparr>name = Name column,
      evidenceType =
        (case map_of spec_type_table (Type column) of
           Some t \<Rightarrow> t
         | None \<Rightarrow> EvidenceType_STRING),
      typeFidelity = TypeFidelity_PRECISE\<rparr>"
  by (simp add: mapAthenaTypeToEvidenceType_def spec_type_table_def)

section \<open>Properties of the result formatter\<close>

lemma mapRow_Inl_iff:
  "mapRow columns index ds m = Inl e \<longleftrightarrow> e = TypeError \<and> ds \<noteq> [] \<and> length columns < index + length ds"
  by (induction ds arbitrary: index m) auto

lemma mapRow_Inr_iff:
  "(\<exists>m'. mapRow columns index ds m = Inr m') \<longleftrightarrow> ds = [] \<or> index + length ds \<le> length columns"
  by (induction ds arbitrary: index m) auto



lemma mapRows_Inl_iff:
  "mapRows columns rs = Inl e \<longleftrightarrow> e = TypeError \<and> (\<exists>r\<in>set rs. length columns < length (Data r))"
proof (induction rs)
  case Nil
  then show ?case by simp
next
  case (Cons r rs)
  show ?case
  proof (cases "mapRow columns 0 (Data r) Map.empty")
    case (Inl e')
    then show ?thesis using mapRow_Inl_iff [of columns 0 "Data r" Map.empty e'] by auto
  next
    case (Inr m')
    then have "\<not> length columns < length (Data r)"
      using mapRow_Inr_iff [of columns 0 "Data r" Map.empty] by auto
    with Inr Cons.IH show ?thesis by (auto split: sum.splits)
  qed
qed

lemma mapRows_Inr:
  "mapRows columns rs = Inr ms \<Longrightarrow>
     length ms = length rs \<and> (\<forall>i<length rs. mapRow columns 0 (Data (rs ! i)) Map.empty = Inr (ms ! i))"
proof (induction rs arbitrary: ms)
  case Nil
  then show ?case by simp
next
  case (Cons r rs)
  then show ?case
    by (auto split: sum.splits simp: nth_Cons split: nat.splits)
qed

lemma mapRows_total:
  "\<forall>r\<in>set rs. length (Data r) \<le> length columns \<Longrightarrow> \<exists>ms. mapRows columns rs = Inr ms"
proof (cases "mapRows columns rs")
  case (Inl e)
  assume "\<forall>r\<in>set rs. length (Data r) \<le> length columns"
  with Inl mapRows_Inl_iff [of columns rs e] show ?thesis by fastforce
next
  case (Inr ms)
  then show ?thesis by blast
qed



text \<open>
  Claim C2, with the precondition the formatter needs. For a raw result whose rows are one
  header row followed by N data rows, each data row holding at most as many values as the
  metadata has columns, the formatter returns an output: it has exactly N rows, the i-th
  of them built from the i-th data row (the header is the one row dropped), and its
  \<open>expectedRowCount\<close> is N.
\<close>

theorem mapQueryResults_row_count:
  assumes "resultSetMetadata queryResults = Some metadata"
    and "QueryResults.rows queryResults = header # dataRows"
    and "\<forall>r\<in>set dataRows. length (Data r) \<le> length (ColumnInfo metadata)"
  shows "\<exists>output. mapQueryResults queryResults = Inr output
           \<and> length (rows output) = length dataRows
           \<and> expectedRowCount output = length dataRows
           \<and> (\<forall>i<length dataRows.
                 mapRow (ColumnInfo metadata) 0 (Data (dataRows ! i)) Map.empty
                   = Inr (rows output ! i))"
proof -
  from assms(3) obtain ms where ms: "mapRows (ColumnInfo metadata) dataRows = Inr ms"
    using mapRows_total by blast
  from mapRows_Inr [OF ms] ms assms(1,2) show ?thesis
    by (simp add: mapQueryResults_def)
qed

theorem mapQueryResults_row_count_witness:
  "(case mapQueryResults
           \<lparr>QueryResults.rows =
              [\<lparr>Data = [\<lparr>VarCharValue = Some ''id''\<rparr>, \<lparr>VarCharValue = Some ''day''\<rparr>]\<rparr>,
               \<lparr>Data = [\<lparr>VarCharValue = Some ''1''\<rparr>, \<lparr>VarCharValue = Some ''2024-01-15''\<rparr>]\<rparr>,
               \<lparr>Data = [\<lparr>VarCharValue = Some ''2''\<rparr>]\<rparr>],
            resultSetMetadata =
              Some \<lparr>ColumnInfo = [\<lparr>Name = ''id'', Type = ''integer''\<rparr>,
                                  \<lparr>Name = ''day'', Type = ''date''\<rparr>]\<rparr>\<rparr> of
      Inl e \<Rightarrow> False
    | Inr output \<Rightarrow> length (rows output) = 2 \<and> expectedRowCount output = 2)"
proof -
  let ?h = "\<lparr>Data = [\<lparr>VarCharValue = Some ''id''\<rparr>, \<lparr>VarCharValue = Some ''day''\<rparr>]\<rparr>"
  let ?ds = "[\<lparr>Data = [\<lparr>VarCharValue = Some ''1''\<rparr>, \<lparr>VarCharValue = Some ''2024-01-15''\<rparr>]\<rparr>,
              \<lparr>Data = [\<lparr>VarCharValue = Some ''2''\<rparr>]\<rparr>]"
  let ?md = "\<lparr>ColumnInfo = [\<lparr>Name = ''id'', Type = ''integer''\<rparr>, \<lparr>Name = ''day'', Type = ''date''\<rparr>]\<rparr>"
  let ?qr = "\<lparr>QueryResults.rows = ?h # ?ds, resultSetMetadata = Some ?md\<rparr>"
  have 1: "resultSetMetadata ?qr = Some ?md" by simp
  have 2: "QueryResults.rows ?qr = ?h # ?ds" by simp
  have 3: "\<forall>r\<in>set ?ds. length (Data r) \<le> length (ColumnInfo ?md)" by simp
  from mapQueryResults_row_count [OF 1 2 3] show ?thesis by auto
qed

text \<open>
  Without the precondition there is no output to count: one header row and one data row
  that holds two values under a single column.
\<close>

theorem mapQueryResults_row_count_counterexample:
  "mapQueryResults
     \<lparr>QueryResults.rows =
        [\<lparr>Data = [\<lparr>VarCharValue = Some ''id''\<rparr>]\<rparr>,
         \<lparr>Data = [\<lparr>VarCharValue = Some ''1''\<rparr>, \<lparr>VarCharValue = Some ''2''\<rparr>]\<rparr>],
      resultSetMetadata = Some \<lparr>ColumnInfo = [\<lparr>Name = ''id'', Type = ''integer''\<rparr>]\<rparr>\<rparr>
   = Inl TypeError"
  by (simp add: mapQueryResults_def)



section \<open>Properties of the completion poller\<close>

lemma send_GetQueryExecution_shift:
  "states w = r ## rest \<Longrightarrow>
     send_GetQueryExecution client cmd w = (r, w\<lparr>states := rest, log := log w @ [Send client cmd]\<rparr>)"
  by (simp add: send_GetQueryExecution_def)

lemma waitForQueryCompletion_pending:
  assumes "states w = map Inr pend @- rest" and "\<forall>s\<in>set pend. pending s"
  shows "waitForQueryCompletion client queryExecutionId w =
         waitForQueryCompletion client queryExecutionId
           (w\<lparr>states := rest,
              log := log w @ concat (map (\<lambda>s. [Send client (GetQueryExecutionCommand queryExecutionId),
                                               SetTimeout 5000]) pend)\<rparr>)"
  using assms
proof (induction pend arbitrary: w)
  case Nil
  then show ?case by (cases w) simp
next
  case (Cons s pend)
  let ?w' = "setTimeout 5000 (w\<lparr>states := map Inr pend @- rest,
                log := log w @ [Send client (GetQueryExecutionCommand queryExecutionId)]\<rparr>)"
  from Cons.prems have s: "pending s" and rest: "\<forall>s\<in>set pend. pending s" by simp_all
  from Cons.prems(1) have st: "states w = Inr s ## (map Inr pend @- rest)" by simp
  have "waitForQueryCompletion client queryExecutionId w
        = waitForQueryCompletion client queryExecutionId ?w'"
    using s by (subst waitForQueryCompletion.simps)
      (simp add: send_GetQueryExecution_shift [OF st] pending_def)
  also have "states ?w' = map Inr pend @- rest" by (simp add: setTimeout_def)
  from Cons.IH [OF this rest]
  have "waitForQueryCompletion client queryExecutionId ?w'
        = waitForQueryCompletion client queryExecutionId
           (?w'\<lparr>states := rest,
              log := log ?w' @ concat (map (\<lambda>s. [Send client (GetQueryExecutionCommand queryExecutionId),
                                               SetTimeout 5000]) pend)\<rparr>)" .
  also have "?w'\<lparr>states := rest,
              log := log ?w' @ concat (map (\<lambda>s. [Send client (GetQueryExecutionCommand queryExecutionId),
                                               SetTimeout 5000]) pend)\<rparr>
           = w\<lparr>states := rest,
              log := log w @ concat (map (\<lambda>s. [Send client (GetQueryExecutionCommand queryExecutionId),
                                               SetTimeout 5000]) (s # pend))\<rparr>"
    by (simp add: setTimeout_def)
  finally show ?case .
qed

lemmas waitForQueryCompletion_induct =
  waitForQueryCompletion.raw_induct [rotated -1, consumes 1, case_names step]

lemma waitForQueryCompletion_diverges:
  assumes "waitForQueryCompletion client queryExecutionId w = Some y"
  shows "\<not> (\<forall>r\<in>sset (states w). \<exists>s. r = Inr s \<and> pending s)"
  using assms
proof (induction rule: waitForQueryCompletion_induct)
  case (step wait client queryExecutionId w y)
  show ?case
  proof
    assume all: "\<forall>r\<in>sset (states w). \<exists>s. r = Inr s \<and> pending s"
    have "shd (states w) \<in> sset (states w)" by (simp add: shd_sset)
    with all obtain s where s: "shd (states w) = Inr s" "pending s" by blast
    let ?w' = "setTimeout 5000 (w\<lparr>states := stl (states w),
                log := log w @ [Send client (GetQueryExecutionCommand queryExecutionId)]\<rparr>)"
    from step(2) s have "wait client queryExecutionId ?w' = Some y"
      by (simp add: send_GetQueryExecution_def pending_def)
    from step(1) [OF this] have "\<not> (\<forall>r\<in>sset (states ?w'). \<exists>s. r = Inr s \<and> pending s)" .
    moreover have "sset (states ?w') \<subseteq> sset (states w)"
      by (auto simp: setTimeout_def dest: stl_sset)
    ultimately show False using all by blast
  qed
qed


text \<open>
  Claim C3. For every execution identifier and in every state of the world, one status check
  of the poller does this: on SUCCEEDED it returns normally; on FAILED or CANCELLED it
  raises the execution-failure error that carries the identifier; on any other status
  (QUEUED, RUNNING) it waits the fixed delay of 5000 milliseconds (5 seconds) and checks
  again. There is no bound on the number of checks: after any number of such statuses the
  poller has waited that many times and checks again, and when every status the service
  will ever report is of this kind the poller never returns.
\<close>

theorem waitForQueryCompletion_polling:
  "(shd (states w) = Inr ''SUCCEEDED'' \<longrightarrow>
      waitForQueryCompletion client queryExecutionId w
        = Some (Inr (), checked client queryExecutionId w))
   \<and> (shd (states w) = Inr ''FAILED'' \<or> shd (states w) = Inr ''CANCELLED'' \<longrightarrow>
      waitForQueryCompletion client queryExecutionId w
        = Some (Inl (Error (''Query execution failed or was cancelled: '' @ queryExecutionId)),
                checked client queryExecutionId w))
   \<and> (\<forall>status. shd (states w) = Inr status \<and> pending status \<longrightarrow>
      waitForQueryCompletion client queryExecutionId w
        = waitForQueryCompletion client queryExecutionId
            (setTimeout 5000 (checked client queryExecutionId w)))
   \<and> (\<forall>pend rest. states w = map Inr pend @- rest \<and> (\<forall>s\<in>set pend. pending s) \<longrightarrow>
      waitForQueryCompletion client queryExecutionId w
        = waitForQueryCompletion client queryExecutionId
            (w\<lparr>states := rest,
               log := log w @ concat (map (\<lambda>s. [Send client (GetQueryExecutionCommand queryExecutionId),
                                                SetTimeout 5000]) pend)\<rparr>))
   \<and> ((\<forall>r\<in>sset (states w). \<exists>s. r = Inr s \<and> pending s) \<longrightarrow>
      waitForQueryCompletion client queryExecutionId w = None)"
proof (intro conjI impI allI)
  assume "shd (states w) = Inr ''SUCCEEDED''"
  then show "waitForQueryCompletion client queryExecutionId w
        = Some (Inr (), checked client queryExecutionId w)"
    by (subst waitForQueryCompletion.simps) (simp add: send_GetQueryExecution_def checked_def)
next
  assume "shd (states w) = Inr ''FAILED'' \<or> shd (states w) = Inr ''CANCELLED''"
  then show "waitForQueryCompletion client queryExecutionId w
        = Some (Inl (Error (''Query execution failed or was cancelled: '' @ queryExecutionId)),
                checked client queryExecutionId w)"
    by (subst waitForQueryCompletion.simps) (auto simp: send_GetQueryExecution_def checked_def)
next
  fix status
  assume "shd (states w) = Inr status \<and> pending status"
  then show "waitForQueryCompletion client queryExecutionId w
        = waitForQueryCompletion client queryExecutionId
            (setTimeout 5000 (checked client queryExecutionId w))"
    by (subst waitForQueryCompletion.simps)
      (simp add: send_GetQueryExecution_def checked_def pending_def)
next
  fix pend rest
  assume "states w = map Inr pend @- rest \<and> (\<forall>s\<in>set pend. pending s)"
  then show "waitForQueryCompletion client queryExecutionId w
        = waitForQueryCompletion client queryExecutionId
            (w\<lparr>states := rest,
               log := log w @ concat (map (\<lambda>s. [Send client (GetQueryExecutionCommand queryExecutionId),
                                                SetTimeout 5000]) pend)\<rparr>)"
    using waitForQueryCompletion_pending by blast
next
  assume all: "\<forall>r\<in>sset (states w). \<exists>s. r = Inr s \<and> pending s"
  show "waitForQueryCompletion client queryExecutionId w = None"
  proof (cases "waitForQueryCompletion client queryExecutionId w")
    case None
    then show ?thesis .
  next
    case (Some y)
    from waitForQueryCompletion_diverges [OF Some] all show ?thesis by blast
  qed
qed

theorem waitForQueryCompletion_polling_witness:
  "waitForQueryCompletion \<lparr>region = ''us-east-1'', credentials = fromIni ''dev''\<rparr> ''q1''
     \<lparr>started = sconst (Inl (Rejected ''unused'')),
      states = map Inr [''QUEUED'', ''RUNNING''] @- (Inr ''SUCCEEDED'' ## sconst (Inl (Rejected ''unused''))),
      pages = sconst (Inl (Rejected ''unused'')),
      log = []\<rparr>
   = Some (Inr (),
       \<lparr>started = sconst (Inl (Rejected ''unused'')),
        states = sconst (Inl (Rejected ''unused'')),
        pages = sconst (Inl (Rejected ''unused'')),
        log = [Send \<lparr>region = ''us-east-1'', credentials = fromIni ''dev''\<rparr> (GetQueryExecutionCommand ''q1''),
               SetTimeout 5000,
               Send \<lparr>region = ''us-east-1'', credentials = fromIni ''dev''\<rparr> (GetQueryExecutionCommand ''q1''),
               SetTimeout 5000,
               Send \<lparr>region = ''us-east-1'', credentials = fromIni ''dev''\<rparr> (GetQueryExecutionCommand ''q1'')]\<rparr>)
   \<and> waitForQueryCompletion \<lparr>region = ''us-east-1'', credentials = fromIni ''dev''\<rparr> ''q1''
     \<lparr>started = sconst (Inl (Rejected ''unused'')),
      states = sconst (Inr ''RUNNING''),
      pages = sconst (Inl (Rejected ''unused'')),
      log = []\<rparr> = None"
proof -
  let ?c = "\<lparr>region = ''us-east-1'', credentials = fromIni ''dev''\<rparr>"
  let ?u = "sconst (Inl (Rejected ''unused''))"
  let ?w = "\<lparr>started = ?u :: (error + string) stream,
      states = map Inr [''QUEUED'', ''RUNNING''] @- (Inr ''SUCCEEDED'' ## ?u),
      pages = ?u :: (error + GetQueryResultsOutput) stream,
      log = []\<rparr>"
  let ?w1 = "?w\<lparr>states := Inr ''SUCCEEDED'' ## ?u,
               log := log ?w @ concat (map (\<lambda>s. [Send ?c (GetQueryExecutionCommand ''q1''),
                                                SetTimeout 5000]) [''QUEUED'', ''RUNNING''])\<rparr>"
  let ?r = "\<lparr>started = ?u :: (error + string) stream,
      states = sconst (Inr ''RUNNING''),
      pages = ?u :: (error + GetQueryResultsOutput) stream,
      log = []\<rparr>"
  have "states ?w = map Inr [''QUEUED'', ''RUNNING''] @- (Inr ''SUCCEEDED'' ## ?u)
          \<and> (\<forall>s\<in>set [''QUEUED'', ''RUNNING'']. pending s)"
    by (simp add: pending_def)
  with waitForQueryCompletion_polling [of ?w ?c "''q1''"]
  have "waitForQueryCompletion ?c ''q1'' ?w = waitForQueryCompletion ?c ''q1'' ?w1"
    by blast
  also have "shd (states ?w1) = Inr ''SUCCEEDED''" by simp
  with waitForQueryCompletion_polling [of ?w1 ?c "''q1''"]
  have "waitForQueryCompletion ?c ''q1'' ?w1 = Some (Inr (), checked ?c ''q1'' ?w1)"
    by blast
  finally have a: "waitForQueryCompletion ?c ''q1'' ?w = Some (Inr (), checked ?c ''q1'' ?w1)" .
  have "\<forall>r\<in>sset (states ?r). \<exists>s. r = Inr s \<and> pending s"
    by (simp add: pending_def)
  with waitForQueryCompletion_polling [of ?r ?c "''q1''"]
  have b: "waitForQueryCompletion ?c ''q1'' ?r = None" by blast
  from a b show ?thesis by (simp add: checked_def)
qed


section \<open>Properties of the result paginator\<close>

lemma send_GetQueryResults_shift:
  "pages w = r ## rest \<Longrightarrow>
     send_GetQueryResults client cmd w = (r, w\<lparr>pages := rest, log := log w @ [Send client cmd]\<rparr>)"
  by (simp add: send_GetQueryResults_def)

lemma getQueryResults_loop_pages:
  assumes "pages w = map Inr (ps @ [lastp]) @- rest"
    and "\<forall>p\<in>set ps. truthy (NextToken p)"
    and "\<not> truthy (NextToken lastp)"
  shows "getQueryResults_loop client queryExecutionId params_NextToken allRows nextToken metadata w
         = Some (Inr \<lparr>QueryResults.rows = allRows @ concat (map (\<lambda>p. Rows (ResultSet p)) (ps @ [lastp])),
                      resultSetMetadata =
                        (case metadata of
                           None \<Rightarrow> Some (ResultSetMetadata (ResultSet (hd (ps @ [lastp]))))
                         | Some m \<Rightarrow> Some m)\<rparr>,
                 w\<lparr>pages := rest,
                   log := log w @ requests client queryExecutionId
                                    ((if truthy nextToken then nextToken else params_NextToken)
                                       # map NextToken ps)\<rparr>)"
  using assms
proof (induction ps arbitrary: w params_NextToken allRows nextToken metadata)
  case Nil
  from Nil.prems(1) have pg: "pages w = Inr lastp ## rest" by simp
  show ?case
    using Nil.prems(3)
    by (subst getQueryResults_loop.simps)
      (simp add: send_GetQueryResults_shift [OF pg] requests_def Let_def split: option.splits)
next
  case (Cons p ps)
  let ?tok = "if truthy nextToken then nextToken else params_NextToken"
  let ?w' = "w\<lparr>pages := map Inr (ps @ [lastp]) @- rest,
               log := log w @ [Send client (GetQueryResultsCommand queryExecutionId ?tok)]\<rparr>"
  let ?md' = "case metadata of None \<Rightarrow> Some (ResultSetMetadata (ResultSet p)) | Some m \<Rightarrow> Some m"
  from Cons.prems(1) have pg: "pages w = Inr p ## (map Inr (ps @ [lastp]) @- rest)" by simp
  from Cons.prems(2) have p: "truthy (NextToken p)" and ps: "\<forall>p\<in>set ps. truthy (NextToken p)"
    by simp_all
  have step: "getQueryResults_loop client queryExecutionId params_NextToken allRows nextToken metadata w
        = getQueryResults_loop client queryExecutionId ?tok (allRows @ Rows (ResultSet p))
            (NextToken p) ?md' ?w'"
    using p by (subst getQueryResults_loop.simps)
      (simp add: send_GetQueryResults_shift [OF pg] Let_def)
  have pg': "pages ?w' = map Inr (ps @ [lastp]) @- rest" by simp
  show ?case
    unfolding step
    by (subst Cons.IH [OF pg' ps Cons.prems(3)])
      (simp add: p requests_def split: option.splits)
qed

text \<open>
  Claim C4. For every sequence of pages in which every page but the last reports a
  continuation token (a non-empty string) and the last reports none, the paginator
  returns: it has fetched exactly these pages, the first with no token and every next
  one with the token the previous page reported, its rows are the rows of all pages in
  page order, and it stops there: whatever the service would answer next is left unread.
  The witness is the stub of two pages, of 3 rows with token t2 and of 2 rows with no
  token: 5 rows.
\<close>

theorem getQueryResults_accumulates:
  assumes "pages w = map Inr (ps @ [lastp]) @- rest"
    and "\<forall>p\<in>set ps. truthy (NextToken p)"
    and "\<not> truthy (NextToken lastp)"
  shows "getQueryResults client queryExecutionId w
         = Some (Inr \<lparr>QueryResults.rows = concat (map (\<lambda>p. Rows (ResultSet p)) (ps @ [lastp])),
                      resultSetMetadata = Some (ResultSetMetadata (ResultSet (hd (ps @ [lastp]))))\<rparr>,
                 w\<lparr>pages := rest,
                   log := log w @ requests client queryExecutionId (None # map NextToken ps)\<rparr>)"
  unfolding getQueryResults_def
  by (subst getQueryResults_loop_pages [OF assms]) (simp add: truthy_def)


theorem getQueryResults_accumulates_witness:
  "map_option (\<lambda>(r, w'). (case r of Inl e \<Rightarrow> None | Inr qr \<Rightarrow> Some (length (QueryResults.rows qr)), log w'))
     (getQueryResults \<lparr>region = ''us-east-1'', credentials = fromIni ''dev''\<rparr> ''q1''
        \<lparr>started = sconst (Inl (Rejected ''unused'')),
         states = sconst (Inl (Rejected ''unused'')),
         pages =
           map Inr
             [\<lparr>ResultSet =
                 \<lparr>Rows = [\<lparr>Data = [\<lparr>VarCharValue = Some ''id''\<rparr>]\<rparr>,
                          \<lparr>Data = [\<lparr>VarCharValue = Some ''1''\<rparr>]\<rparr>,
                          \<lparr>Data = [\<lparr>VarCharValue = Some ''2''\<rparr>]\<rparr>],
                  ResultSetMetadata = \<lparr>ColumnInfo = [\<lparr>Name = ''id'', Type = ''integer''\<rparr>]\<rparr>\<rparr>,
               NextToken = Some ''t2''\<rparr>,
              \<lparr>ResultSet =
                 \<lparr>Rows = [\<lparr>Data = [\<lparr>VarCharValue = Some ''3''\<rparr>]\<rparr>,
                          \<lparr>Data = [\<lparr>VarCharValue = Some ''4''\<rparr>]\<rparr>],
                  ResultSetMetadata = \<lparr>ColumnInfo = [\<lparr>Name = ''id'', Type = ''integer''\<rparr>]\<rparr>\<rparr>,
               NextToken = None\<rparr>]
           @- sconst (Inl (Rejected ''unused'')),
         log = []\<rparr>)
   = Some (Some 5,
       [Send \<lparr>region = ''us-east-1'', credentials = fromIni ''dev''\<rparr> (GetQueryResultsCommand ''q1'' None),
        Send \<lparr>region = ''us-east-1'', credentials = fromIni ''dev''\<rparr>
          (GetQueryResultsCommand ''q1'' (Some ''t2''))])"
proof -
  let ?c = "\<lparr>region = ''us-east-1'', credentials = fromIni ''dev''\<rparr>"
  let ?md = "\<lparr>ColumnInfo = [\<lparr>Name = ''id'', Type = ''integer''\<rparr>]\<rparr>"
  let ?p1 = "\<lparr>ResultSet =
                 \<lparr>Rows = [\<lparr>Data = [\<lparr>VarCharValue = Some ''id''\<rparr>]\<rparr>,
                          \<lparr>Data = [\<lparr>VarCharValue = Some ''1''\<rparr>]\<rparr>,
                          \<lparr>Data = [\<lparr>VarCharValue = Some ''2''\<rparr>]\<rparr>],
                  ResultSetMetadata = ?md\<rparr>,
               NextToken = Some ''t2''\<rparr>"
  let ?p2 = "\<lparr>ResultSet =
                 \<lparr>Rows = [\<lparr>Data = [\<lparr>VarCharValue = Some ''3''\<rparr>]\<rparr>,
                          \<lparr>Data = [\<lparr>VarCharValue = Some ''4''\<rparr>]\<rparr>],
                  ResultSetMetadata = ?md\<rparr>,
               NextToken = None\<rparr>"
  let ?u = "sconst (Inl (Rejected ''unused''))"
  let ?w = "\<lparr>started = ?u :: (error + string) stream,
         states = ?u :: (error + string) stream,
         pages = map Inr [?p1, ?p2] @- ?u,
         log = []\<rparr>"
  have 1: "pages ?w = map Inr ([?p1] @ [?p2]) @- ?u" by simp
  have 2: "\<forall>p\<in>set [?p1]. truthy (NextToken p)" by (simp add: truthy_def)
  have 3: "\<not> truthy (NextToken ?p2)" by (simp add: truthy_def)
  show ?thesis
    by (subst getQueryResults_accumulates [OF 1 2 3, of ?c "''q1''"]) (simp add: requests_def)
qed





section \<open>Properties of the query runner\<close>

lemma new_Date_idem: "new_Date h (new_Date h v) = new_Date h v"
  by (cases v) (simp_all add: new_Date_def)

lemma obj_get_upd: "obj_get (row(k \<mapsto> v)) k' = (if k' = k then v else obj_get row k')"
  by (simp add: obj_get_def)

lemma for_columns_apply:
  "for_columns h cts row k =
     (if \<exists>c\<in>set cts. evidenceType c = ''date'' \<and> name c = k
      then Some (new_Date h (obj_get row k)) else row k)"
proof (induction cts arbitrary: row)
  case Nil
  then show ?case by simp
next
  case (Cons c cts)
  show ?case
    by (auto simp: Cons.IH obj_get_upd new_Date_idem)
qed

lemma parse_date_only_example: "parse_date_only ''2024-01-15'' = Some (UTC_date 2024 1 15)"
  by (simp add: parse_date_only_def digit_def DaysInMonth_def)

lemma UTC_date_example: "UTC_date 2024 1 15 = 1705276800000"
  by (simp add: UTC_date_def DayFromYear_def msPerDay_def)

lemma getRunner_Inr:
  assumes "getRunner h client options queryText queryPath w = Some (Inr (Some out), w')"
  shows "\<exists>queryResults pre. mapQueryResults queryResults = Inr pre \<and> out = for_rows h pre"
  using assms
  by (auto simp: getRunner_def getRunner_try_def split: prod.splits sum.splits option.splits)


text \<open>
  Claim C6, for columns whose name no DATE column shares. For every row of the formatter's
  output and every column: when the column's mapped type is DATE, the post-processing
  replaces the row's value under the column's name by the date built from it, so a string
  is replaced by the date it parses to (\<^verbatim>\<open>2024-01-15\<close> becomes the date value of January 15,
  2024, at midnight UTC); when the column's mapped type is not DATE and no DATE column has
  the same name, the row's value under that name is left as it was. The output the runner
  returns is the formatter's output after this step.
\<close>

theorem for_rows_dates:
  assumes "i < length (rows output)" and "column \<in> set (columnTypes output)"
  shows "(evidenceType column = EvidenceType_DATE \<longrightarrow>
            obj_get (rows (for_rows h output) ! i) (name column)
              = new_Date h (obj_get (rows output ! i) (name column))
          \<and> (\<forall>s. obj_get (rows output ! i) (name column) = Str s \<longrightarrow>
                obj_get (rows (for_rows h output) ! i) (name column) = DateObj (Date_parse h s)))
       \<and> (evidenceType column \<noteq> EvidenceType_DATE
            \<and> (\<forall>c\<in>set (columnTypes output). evidenceType c = EvidenceType_DATE \<longrightarrow> name c \<noteq> name column)
          \<longrightarrow> (rows (for_rows h output) ! i) (name column) = (rows output ! i) (name column))
       \<and> Date_parse h ''2024-01-15'' = Some (UTC_date 2024 1 15)
       \<and> UTC_date 2024 1 15 = 1705276800000
       \<and> (\<forall>client options queryText queryPath w out w'.
             getRunner h client options queryText queryPath w = Some (Inr (Some out), w') \<longrightarrow>
             (\<exists>queryResults pre. mapQueryResults queryResults = Inr pre \<and> out = for_rows h pre))"
proof -
  let ?row = "rows output ! i"
  have post: "rows (for_rows h output) ! i = for_columns h (columnTypes output) ?row"
    using assms(1) by (simp add: for_rows_def)
  have date: "evidenceType column = EvidenceType_DATE \<longrightarrow>
            obj_get (rows (for_rows h output) ! i) (name column)
              = new_Date h (obj_get ?row (name column))"
    using assms(2) unfolding post
    by (auto simp: for_columns_apply obj_get_def EvidenceType_DATE_def)
  then have str: "evidenceType column = EvidenceType_DATE \<longrightarrow>
          (\<forall>s. obj_get ?row (name column) = Str s \<longrightarrow>
                obj_get (rows (for_rows h output) ! i) (name column) = DateObj (Date_parse h s))"
    by (simp add: new_Date_def)
  have other: "evidenceType column \<noteq> EvidenceType_DATE
            \<and> (\<forall>c\<in>set (columnTypes output). evidenceType c = EvidenceType_DATE \<longrightarrow> name c \<noteq> name column)
          \<longrightarrow> (rows (for_rows h output) ! i) (name column) = ?row (name column)"
    unfolding post by (auto simp: for_columns_apply EvidenceType_DATE_def)
  have ex: "Date_parse h ''2024-01-15'' = Some (UTC_date 2024 1 15)"
    by (simp add: Date_parse_def parse_date_only_example)
  from date str other ex UTC_date_example getRunner_Inr show ?thesis by blast
qed

theorem for_rows_dates_witness:
  "obj_get
     (rows (for_rows (\<lambda>s. None)
        \<lparr>rows = [[''id'' \<mapsto> Str ''1'', ''day'' \<mapsto> Str ''2024-01-15'']],
         columnTypes =
           [\<lparr>name = ''id'', evidenceType = ''number'', typeFidelity = ''precise''\<rparr>,
            \<lparr>name = ''day'', evidenceType = ''date'', typeFidelity = ''precise''\<rparr>],
         expectedRowCount = 1\<rparr>) ! 0) ''day''
     = DateObj (Some 1705276800000)
   \<and> (rows (for_rows (\<lambda>s. None)
        \<lparr>rows = [[''id'' \<mapsto> Str ''1'', ''day'' \<mapsto> Str ''2024-01-15'']],
         columnTypes =
           [\<lparr>name = ''id'', evidenceType = ''number'', typeFidelity = ''precise''\<rparr>,
            \<lparr>name = ''day'', evidenceType = ''date'', typeFidelity = ''precise''\<rparr>],
         expectedRowCount = 1\<rparr>) ! 0) ''id''
     = Some (Str ''1'')"
proof -
  let ?id = "\<lparr>name = ''id'', evidenceType = ''number'', typeFidelity = ''precise''\<rparr>"
  let ?day = "\<lparr>name = ''day'', evidenceType = ''date'', typeFidelity = ''precise''\<rparr>"
  let ?out = "\<lparr>rows = [[''id'' \<mapsto> Str ''1'', ''day'' \<mapsto> Str ''2024-01-15'']],
         columnTypes = [?id, ?day], expectedRowCount = 1\<rparr>"
  have i: "0 < length (rows ?out)" by simp
  have day: "?day \<in> set (columnTypes ?out)" by simp
  have idc: "?id \<in> set (columnTypes ?out)" by simp
  note d = for_rows_dates [OF i day, of "\<lambda>s. None"]
  have "evidenceType ?day = EvidenceType_DATE" by (simp add: EvidenceType_DATE_def)
  moreover have "obj_get (rows ?out ! 0) (name ?day) = Str ''2024-01-15''"
    by (simp add: obj_get_def)
  ultimately have "obj_get (rows (for_rows (\<lambda>s. None) ?out) ! 0) (name ?day)
      = DateObj (Date_parse (\<lambda>s. None) ''2024-01-15'')"
    using d by blast
  moreover from d have "Date_parse (\<lambda>s. None) ''2024-01-15'' = Some 1705276800000"
    by simp
  ultimately have a: "obj_get (rows (for_rows (\<lambda>s. None) ?out) ! 0) ''day''
      = DateObj (Some 1705276800000)"
    by simp
  have "evidenceType ?id \<noteq> EvidenceType_DATE
            \<and> (\<forall>c\<in>set (columnTypes ?out). evidenceType c = EvidenceType_DATE \<longrightarrow> name c \<noteq> name ?id)"
    by (simp add: EvidenceType_DATE_def)
  with for_rows_dates [OF i idc, of "\<lambda>s. None"]
  have "(rows (for_rows (\<lambda>s. None) ?out) ! 0) (name ?id) = (rows ?out ! 0) (name ?id)"
    by blast
  then have b: "(rows (for_rows (\<lambda>s. None) ?out) ! 0) ''id'' = Some (Str ''1'')"
    by simp
  from a b show ?thesis by blast
qed

text \<open>
  Two columns named \<^verbatim>\<open>d\<close>, the first a date and the second a varchar: the row keeps the
  second value under \<^verbatim>\<open>d\<close>, and the post-processing turns it into a date, although the
  second column's mapped type is STRING.
\<close>

theorem for_rows_dates_counterexample:
  "map_sum id
     (\<lambda>out. (map (\<lambda>c. (name c, evidenceType c)) (columnTypes out),
             map (\<lambda>row. obj_get row ''d'') (rows out),
             map (\<lambda>row. obj_get row ''d'') (rows (for_rows (\<lambda>s. None) out))))
     (mapQueryResults
        \<lparr>QueryResults.rows =
           [\<lparr>Data = [\<lparr>VarCharValue = Some ''d''\<rparr>, \<lparr>VarCharValue = Some ''d''\<rparr>]\<rparr>,
            \<lparr>Data = [\<lparr>VarCharValue = Some ''2024-01-15''\<rparr>, \<lparr>VarCharValue = Some ''x''\<rparr>]\<rparr>],
         resultSetMetadata =
           Some \<lparr>ColumnInfo = [\<lparr>Name = ''d'', Type = ''date''\<rparr>,
                               \<lparr>Name = ''d'', Type = ''varchar''\<rparr>]\<rparr>\<rparr>)
   = Inr ([(''d'', ''date''), (''d'', ''string'')], [Str ''x''], [DateObj None])"
  by (simp add: mapQueryResults_def mapAthenaTypeToEvidenceType_def EvidenceType_DATE_def
      EvidenceType_STRING_def js_string_def for_rows_def obj_get_def new_Date_def Date_parse_def
      parse_date_only_def)


section \<open>Properties of the client initializer\<close>

lemma extends_log_iff:
  "extends_log client w w' \<longleftrightarrow>
     (\<exists>evs. log w' = log w @ evs \<and> list_all (uses_client client) evs)"
proof
  assume "extends_log client w w'"
  then have "log w' = log w @ drop (length (log w)) (log w')"
    and "list_all (uses_client client) (drop (length (log w)) (log w'))"
    unfolding extends_log_def by (metis append_take_drop_id, blast)
  then show "\<exists>evs. log w' = log w @ evs \<and> list_all (uses_client client) evs" by blast
next
  assume "\<exists>evs. log w' = log w @ evs \<and> list_all (uses_client client) evs"
  then show "extends_log client w w'" by (auto simp: extends_log_def)
qed

lemma extends_log_refl: "extends_log client w w"
  by (simp add: extends_log_iff)

lemma extends_log_trans:
  "extends_log client w w1 \<Longrightarrow> extends_log client w1 w2 \<Longrightarrow> extends_log client w w2"
  by (auto simp: extends_log_iff)

lemma extends_log_send:
  "extends_log client w (snd (send_StartQueryExecution client cmd w))"
  "extends_log client w (snd (send_GetQueryExecution client cmd w))"
  "extends_log client w (snd (send_GetQueryResults client cmd w))"
  "extends_log client w (setTimeout ms w)"
  "extends_log client w (console_error e w)"
  by (simp_all add: extends_log_iff uses_client_def send_StartQueryExecution_def
      send_GetQueryExecution_def send_GetQueryResults_def setTimeout_def console_error_def)

lemma waitForQueryCompletion_log:
  assumes "waitForQueryCompletion client queryExecutionId w = Some y"
  shows "extends_log client w (snd y)"
  using assms
proof (induction rule: waitForQueryCompletion_induct)
  case (step wait client queryExecutionId w y)
  obtain r w1 where s: "send_GetQueryExecution client (GetQueryExecutionCommand queryExecutionId) w = (r, w1)"
    by (cases "send_GetQueryExecution client (GetQueryExecutionCommand queryExecutionId) w")
  from extends_log_send(2) [of client w "GetQueryExecutionCommand queryExecutionId"] s
  have w1: "extends_log client w w1" by simp
  show ?case
  proof (cases r)
    case (Inl e)
    with step(2) s w1 show ?thesis by auto
  next
    case (Inr status)
    show ?thesis
    proof (cases "pending status")
      case False
      with step(2) s w1 Inr show ?thesis by (auto simp: pending_def split: if_splits)
    next
      case True
      with step(2) s Inr have "wait client queryExecutionId (setTimeout 5000 w1) = Some y"
        by (simp add: pending_def)
      from step(1) [OF this] have "extends_log client (setTimeout 5000 w1) (snd y)" .
      with w1 extends_log_send(4) show ?thesis by (blast intro: extends_log_trans)
    qed
  qed
qed

lemmas getQueryResults_loop_induct =
  getQueryResults_loop.raw_induct [rotated -1, consumes 1, case_names step]

lemma getQueryResults_loop_log:
  assumes "getQueryResults_loop client queryExecutionId params_NextToken allRows nextToken metadata w
             = Some y"
  shows "extends_log client w (snd y)"
  using assms
proof (induction rule: getQueryResults_loop_induct)
  case (step loop client queryExecutionId params_NextToken allRows nextToken metadata w y)
  let ?tok = "if truthy nextToken then nextToken else params_NextToken"
  obtain r w1 where s: "send_GetQueryResults client (GetQueryResultsCommand queryExecutionId ?tok) w = (r, w1)"
    by (cases "send_GetQueryResults client (GetQueryResultsCommand queryExecutionId ?tok) w")
  from extends_log_send(3) [of client w "GetQueryResultsCommand queryExecutionId ?tok"] s
  have w1: "extends_log client w w1" by simp
  show ?case
  proof (cases r)
    case (Inl e)
    with step(2) s w1 show ?thesis by (auto simp: Let_def)
  next
    case (Inr response)
    show ?thesis
    proof (cases "truthy (NextToken response)")
      case False
      with step(2) s w1 Inr show ?thesis by (auto simp: Let_def)
    next
      case True
      with step(2) s Inr obtain tok rows' tok' md' where
        "loop client queryExecutionId tok rows' tok' md' w1 = Some y"
        by (auto simp: Let_def)
      from step(1) [OF this] have "extends_log client w1 (snd y)" .
      with w1 show ?thesis by (blast intro: extends_log_trans)
    qed
  qed
qed

lemma getRunner_try_log:
  assumes "getRunner_try h client options queryText w = Some y"
  shows "extends_log client w (snd y)"
proof -
  let ?cmd = "StartQueryExecutionCommand queryText (database options) (catalog options)
                (''s3://'' @ outputBucket options)"
  obtain r w1 where s: "send_StartQueryExecution client ?cmd w = (r, w1)"
    by (cases "send_StartQueryExecution client ?cmd w")
  from extends_log_send(1) [of client w ?cmd] s have w1: "extends_log client w w1" by simp
  show ?thesis
  proof (cases r)
    case (Inl e)
    with assms s w1 show ?thesis by (auto simp: getRunner_try_def)
  next
    case (Inr queryExecutionId)
    with assms s obtain r2 w2 where wt: "waitForQueryCompletion client queryExecutionId w1 = Some (r2, w2)"
      by (auto simp: getRunner_try_def split: option.splits)
    from waitForQueryCompletion_log [OF wt] w1 have w2: "extends_log client w w2"
      by (auto intro: extends_log_trans)
    show ?thesis
    proof (cases r2)
      case (Inl e)
      with assms s \<open>r = Inr queryExecutionId\<close> wt w2 show ?thesis
        by (auto simp: getRunner_try_def)
    next
      case r2: (Inr u)
      with assms s \<open>r = Inr queryExecutionId\<close> wt obtain r3 w3 where
        gq: "getQueryResults client queryExecutionId w2 = Some (r3, w3)"
        by (auto simp: getRunner_try_def split: option.splits)
      from gq getQueryResults_loop_log have "extends_log client w2 w3"
        unfolding getQueryResults_def by fastforce
      with w2 have w3: "extends_log client w w3" by (blast intro: extends_log_trans)
      from assms s \<open>r = Inr queryExecutionId\<close> wt r2 gq have "snd y = w3"
        by (auto simp: getRunner_try_def split: sum.splits)
      with w3 show ?thesis by simp
    qed
  qed
qed

lemma getRunner_log:
  assumes "getRunner h client options queryText queryPath w = Some y"
  shows "extends_log client w (snd y)"
proof -
  from assms obtain r w1 where t: "getRunner_try h client options queryText w = Some (r, w1)"
    by (auto simp: getRunner_def split: option.splits)
  from getRunner_try_log [OF t] have w1: "extends_log client w w1" by simp
  show ?thesis
  proof (cases r)
    case (Inl e)
    with assms t have "snd y = console_error e w1" by (auto simp: getRunner_def)
    with w1 extends_log_send(5) [of client w1 e] show ?thesis
      by (auto intro: extends_log_trans)
  next
    case (Inr out)
    with assms t have "snd y = w1" by (auto simp: getRunner_def)
    with w1 show ?thesis by simp
  qed
qed


text \<open>
  Claim C7, with an empty value counted as absent. If the credential-profile variable is
  absent from the environment or empty, loading the module throws before anything else
  happens: no client is constructed, and a host that imports the module to run a query
  gets that error and nothing is sent. If the variable holds a non-empty profile name,
  loading constructs one client, bound to the region us-east-1 and to the credentials of
  that profile; whatever the runner then does, no further client is constructed and every
  command is sent through this one.
\<close>

theorem load_module_client:
  "((env ''AUX_PROFILE'' = None \<or> env ''AUX_PROFILE'' = Some []) \<longrightarrow>
       load_module env w = (Inl (Error ''Environment variable AUX_PROFILE is not set.''), w)
     \<and> import_and_run env h options queryText queryPath w
         = Some (Inl (Error ''Environment variable AUX_PROFILE is not set.''), w))
   \<and> (\<forall>profile. env ''AUX_PROFILE'' = Some profile \<and> profile \<noteq> [] \<longrightarrow>
         load_module env w
           = (Inr \<lparr>region = ''us-east-1'', credentials = fromIni profile\<rparr>,
              w\<lparr>log := log w @ [NewAthenaClient \<lparr>region = ''us-east-1'', credentials = fromIni profile\<rparr>]\<rparr>)
       \<and> (\<forall>y. import_and_run env h options queryText queryPath w = Some y \<longrightarrow>
             (\<exists>evs. log (snd y)
                      = log w @ NewAthenaClient \<lparr>region = ''us-east-1'', credentials = fromIni profile\<rparr> # evs
                  \<and> list_all (uses_client \<lparr>region = ''us-east-1'', credentials = fromIni profile\<rparr>) evs)))"
proof (intro conjI impI allI)
  assume a: "env ''AUX_PROFILE'' = None \<or> env ''AUX_PROFILE'' = Some []"
  then show l: "load_module env w = (Inl (Error ''Environment variable AUX_PROFILE is not set.''), w)"
    by (auto simp: load_module_def truthy_def)
  then show "import_and_run env h options queryText queryPath w
         = Some (Inl (Error ''Environment variable AUX_PROFILE is not set.''), w)"
    by (simp add: import_and_run_def)
next
  fix profile
  let ?c = "\<lparr>region = ''us-east-1'', credentials = fromIni profile\<rparr>"
  assume a: "env ''AUX_PROFILE'' = Some profile \<and> profile \<noteq> []"
  then show l: "load_module env w = (Inr ?c, w\<lparr>log := log w @ [NewAthenaClient ?c]\<rparr>)"
    by (simp add: load_module_def truthy_def Let_def)
  fix y
  assume "import_and_run env h options queryText queryPath w = Some y"
  with l have "getRunner h ?c options queryText queryPath (w\<lparr>log := log w @ [NewAthenaClient ?c]\<rparr>) = Some y"
    by (simp add: import_and_run_def)
  from getRunner_log [OF this]
  show "\<exists>evs. log (snd y) = log w @ NewAthenaClient ?c # evs \<and> list_all (uses_client ?c) evs"
    by (auto simp: extends_log_iff)
qed

text \<open>
  The variable is present with the empty string as its value: the module throws and
  constructs no client.
\<close>

theorem load_module_client_counterexample:
  "fst (load_module [''AUX_PROFILE'' \<mapsto> '''']
          \<lparr>started = sconst (Inl (Rejected ''unused'')),
           states = sconst (Inl (Rejected ''unused'')),
           pages = sconst (Inl (Rejected ''unused'')),
           log = []\<rparr>)
     = Inl (Error ''Environment variable AUX_PROFILE is not set.'')
   \<and> log (snd (load_module [''AUX_PROFILE'' \<mapsto> '''']
          \<lparr>started = sconst (Inl (Rejected ''unused'')),
           states = sconst (Inl (Rejected ''unused'')),
           pages = sconst (Inl (Rejected ''unused'')),
           log = []\<rparr>)) = []"
  by (simp add: load_module_def truthy_def)


theorem load_module_client_witness:
  "load_module [''AUX_PROFILE'' \<mapsto> ''dev'']
     \<lparr>started = sconst (Inr ''q1''),
      states = sconst (Inr ''FAILED''),
      pages = sconst (Inl (Rejected ''unused'')),
      log = []\<rparr>
   = (Inr \<lparr>region = ''us-east-1'', credentials = fromIni ''dev''\<rparr>,
      \<lparr>started = sconst (Inr ''q1''),
       states = sconst (Inr ''FAILED''),
       pages = sconst (Inl (Rejected ''unused'')),
       log = [NewAthenaClient \<lparr>region = ''us-east-1'', credentials = fromIni ''dev''\<rparr>]\<rparr>)
   \<and> import_and_run Map.empty (\<lambda>s. None)
       \<lparr>database = ''db'', catalog = ''AwsDataCatalog'', outputBucket = ''bucket'', testTableName = ''t''\<rparr>
       ''select 1'' ''q.sql''
       \<lparr>started = sconst (Inr ''q1''),
        states = sconst (Inr ''FAILED''),
        pages = sconst (Inl (Rejected ''unused'')),
        log = []\<rparr>
     = Some (Inl (Error ''Environment variable AUX_PROFILE is not set.''),
         \<lparr>started = sconst (Inr ''q1''),
          states = sconst (Inr ''FAILED''),
          pages = sconst (Inl (Rejected ''unused'')),
          log = []\<rparr>)
   \<and> map_option (\<lambda>y. log (snd y))
       (import_and_run [''AUX_PROFILE'' \<mapsto> ''dev''] (\<lambda>s. None)
          \<lparr>database = ''db'', catalog = ''AwsDataCatalog'', outputBucket = ''bucket'', testTableName = ''t''\<rparr>
          ''select 1'' ''q.sql''
          \<lparr>started = sconst (Inr ''q1''),
           states = sconst (Inr ''FAILED''),
           pages = sconst (Inl (Rejected ''unused'')),
           log = []\<rparr>)
     = Some [NewAthenaClient \<lparr>region = ''us-east-1'', credentials = fromIni ''dev''\<rparr>,
             Send \<lparr>region = ''us-east-1'', credentials = fromIni ''dev''\<rparr>
               (StartQueryExecutionCommand ''select 1'' ''db'' ''AwsDataCatalog'' ''s3://bucket''),
             Send \<lparr>region = ''us-east-1'', credentials = fromIni ''dev''\<rparr> (GetQueryExecutionCommand ''q1''),
             ConsoleError (Error ''Query execution failed or was cancelled: q1'')]"
proof -
  let ?c = "\<lparr>region = ''us-east-1'', credentials = fromIni ''dev''\<rparr>"
  let ?o = "\<lparr>database = ''db'', catalog = ''AwsDataCatalog'', outputBucket = ''bucket'', testTableName = ''t''\<rparr>"
  let ?w = "\<lparr>started = sconst (Inr ''q1'') :: (error + string) stream,
      states = sconst (Inr ''FAILED''),
      pages = sconst (Inl (Rejected ''unused'')) :: (error + GetQueryResultsOutput) stream,
      log = []\<rparr>"
  let ?env = "[''AUX_PROFILE'' \<mapsto> ''dev'']"
  have p: "?env ''AUX_PROFILE'' = Some ''dev'' \<and> ''dev'' \<noteq> []" by simp
  with load_module_client [of ?env ?w "\<lambda>s. None" ?o "''select 1''" "''q.sql''"]
  have a: "load_module ?env ?w = (Inr ?c, ?w\<lparr>log := log ?w @ [NewAthenaClient ?c]\<rparr>)"
    by blast
  have "Map.empty ''AUX_PROFILE'' = None \<or> Map.empty ''AUX_PROFILE'' = Some []" by simp
  with load_module_client [of Map.empty ?w "\<lambda>s. None" ?o "''select 1''" "''q.sql''"]
  have b: "import_and_run Map.empty (\<lambda>s. None) ?o ''select 1'' ''q.sql'' ?w
         = Some (Inl (Error ''Environment variable AUX_PROFILE is not set.''), ?w)"
    by blast
  have c: "map_option (\<lambda>y. log (snd y))
       (import_and_run ?env (\<lambda>s. None) ?o ''select 1'' ''q.sql'' ?w)
     = Some [NewAthenaClient ?c,
             Send ?c (StartQueryExecutionCommand ''select 1'' ''db'' ''AwsDataCatalog'' ''s3://bucket''),
             Send ?c (GetQueryExecutionCommand ''q1''),
             ConsoleError (Error ''Query execution failed or was cancelled: q1'')]"
    unfolding import_and_run_def a
    by (simp add: getRunner_def getRunner_try_def send_StartQueryExecution_def)
      (subst waitForQueryCompletion.simps,
        simp add: send_GetQueryExecution_def console_error_def)
  from a b c show ?thesis by simp
qed

section \<open>Error handling of the query runner\<close>




section \<open>Properties of the connectivity prober\<close>

text \<open>
  Claim C9. For every value of the options and in every state of the world, the connection
  tester resolves to true and leaves the world as it was: nothing is sent to the service.
\<close>

theorem testConnection_always_true:
  "testConnection options w = (Inr True, w)"
  by (simp add: testConnection_def)

end
